theory Spec2Isabelle
  imports Main "HOL-Library.Sublist"
begin

section \<open>The system prompt assembly of \<^verbatim>\<open>src/core/prompts\<close>\<close>

text \<open>
  The TypeScript module \<^verbatim>\<open>src/core/prompts/index.ts\<close> builds one long string from 22
  section texts (23 when the agent supports computer use) and joins them with a blank line.
  This theory embeds that function and the section providers whose code is part of the
  sources at hand; the providers whose code is not are fields of the record
  \<open>providers\<close>, and the facts of the host (operating system, shell, home directory, the
  built-in JSON parser) are fields of the record \<open>host\<close>.

  Strings are \<^typ>\<open>string\<close>; a thrown exception or a rejected promise is a value
  \<open>Inl e\<close> of the result type \<open>error + 'a\<close>.
\<close>

subsection \<open>Errors\<close>

text \<open>
  \<open>SyntaxError\<close> is what \<^verbatim>\<open>JSON.parse\<close> throws, \<open>TypeError\<close> what a property read on
  \<^verbatim>\<open>null\<close> or a call of a value that is not a function throws, and \<open>Rejected msg\<close> stands
  for an error thrown by a collaborator (the hub, an asynchronous provider).
\<close>

datatype error = SyntaxError | TypeError | Rejected string

definition bindE :: "'e + 'a \<Rightarrow> ('a \<Rightarrow> 'e + 'b) \<Rightarrow> 'e + 'b" where
  "bindE m f = (case m of Inl e \<Rightarrow> Inl e | Inr v \<Rightarrow> f v)"

text \<open>\<^verbatim>\<open>xs.map(f)\<close> where \<open>f\<close> may throw: the first exception ends the loop.\<close>

fun mapE :: "('a \<Rightarrow> 'e + 'b) \<Rightarrow> 'a list \<Rightarrow> 'e + 'b list" where
  "mapE f [] = Inr []"
| "mapE f (x # xs) = bindE (f x) (\<lambda>y. bindE (mapE f xs) (\<lambda>ys. Inr (y # ys)))"

subsection \<open>Array and string built-ins\<close>

text \<open>
  \<^verbatim>\<open>xs.join(sep)\<close> on an array of strings: the separator stands between every two
  neighbours, whether they are empty or not.
\<close>

fun join :: "'a list \<Rightarrow> 'a list list \<Rightarrow> 'a list" where
  "join sep [] = []"
| "join sep [x] = x"
| "join sep (x # y # ys) = x @ sep @ join sep (y # ys)"

text \<open>
  \<^verbatim>\<open>xs.splice(start, deleteCount, ...items)\<close> for a start that is not negative; a start
  or a count beyond the end is clipped to the end, as \<open>take\<close> and \<open>drop\<close> do.
\<close>

definition splice_js :: "nat \<Rightarrow> nat \<Rightarrow> 'a list \<Rightarrow> 'a list \<Rightarrow> 'a list" where
  "splice_js start deleteCount items xs = take start xs @ items @ drop (start + deleteCount) xs"

text \<open>\<^verbatim>\<open>a || b\<close> on strings: the empty string is the only falsy one.\<close>

definition or_js :: "string \<Rightarrow> string \<Rightarrow> string" where
  "or_js a b = (if a = [] then b else a)"

text \<open>
  Modelled from the spec: \<^verbatim>\<open>String.prototype.toPosix\<close> is declared outside the sources at
  hand. The specification calls its result the canonical forward-slash form of a path: every
  backslash becomes a forward slash.
\<close>

definition toPosix :: "string \<Rightarrow> string" where
  "toPosix p = map (\<lambda>c. if c = CHR 0x5C then CHR ''/'' else c) p"

subsection \<open>Parsed JSON\<close>

text \<open>
  The values \<^verbatim>\<open>JSON.parse\<close> returns. A number is carried as the text JavaScript prints
  for it, here and in the browser settings (floating point is not modelled, and the code
  does nothing with a number but print it). An object is the list of its own properties,
  each key once. The parser itself is a built-in of the host.
\<close>

datatype json =
    JNull
  | JBool bool
  | JNumber string
  | JString string
  | JArray "json list"
  | JObject "(string \<times> json) list"

text \<open>
  Conversion to a string, as a template literal and \<^verbatim>\<open>Array.prototype.join\<close> do it.
  An array is its elements joined with commas; \<open>elements_js\<close> converts the elements from left
  to right, a \<^verbatim>\<open>null\<close> element to the empty string. An object prints as
  \<^verbatim>\<open>[object Object]\<close> through the \<^verbatim>\<open>toString\<close> it inherits; when it has an own property
  \<^verbatim>\<open>toString\<close>, that property is a JSON value and no function, the inherited \<^verbatim>\<open>valueOf\<close>
  returns the object itself (and an own \<^verbatim>\<open>valueOf\<close> is no function either), and the
  conversion throws a \<^verbatim>\<open>TypeError\<close>.
\<close>

fun String_js :: "json \<Rightarrow> error + string"
  and elements_js :: "json list \<Rightarrow> error + string list" where
  "String_js JNull = Inr ''null''"
| "String_js (JBool b) = Inr (if b then ''true'' else ''false'')"
| "String_js (JNumber s) = Inr s"
| "String_js (JString s) = Inr s"
| "String_js (JArray xs) = bindE (elements_js xs) (\<lambda>ss. Inr (join '','' ss))"
| "String_js (JObject kvs) =
     (if map_of kvs ''toString'' = None then Inr ''[object Object]'' else Inl TypeError)"
| "elements_js [] = Inr []"
| "elements_js (x # xs) =
     bindE (if x = JNull then Inr [] else String_js x) (\<lambda>s.
     bindE (elements_js xs) (\<lambda>ss. Inr (s # ss)))"

text \<open>A value in a template literal; \<open>None\<close> is \<^verbatim>\<open>undefined\<close>.\<close>

fun template_js :: "json option \<Rightarrow> error + string" where
  "template_js None = Inr ''undefined''"
| "template_js (Some v) = String_js v"

text \<open>
  \<^verbatim>\<open>v.k\<close> for a key that no prototype defines (\<^verbatim>\<open>command\<close>, \<^verbatim>\<open>args\<close>): a \<^verbatim>\<open>TypeError\<close> on
  \<^verbatim>\<open>null\<close>, the own property of an object, \<^verbatim>\<open>undefined\<close> on every other value.
\<close>

fun getProp :: "json \<Rightarrow> string \<Rightarrow> error + json option" where
  "getProp JNull k = Inl TypeError"
| "getProp (JObject kvs) k = Inr (map_of kvs k)"
| "getProp (JBool b) k = Inr None"
| "getProp (JNumber n) k = Inr None"
| "getProp (JString s) k = Inr None"
| "getProp (JArray xs) k = Inr None"

text \<open>
  \<^verbatim>\<open>args?.join(" ") || ""\<close>: nothing when \<^verbatim>\<open>args\<close> is \<^verbatim>\<open>undefined\<close> or \<^verbatim>\<open>null\<close>, the joined
  elements when it is an array (or the \<^verbatim>\<open>TypeError\<close> of an element that does not convert),
  and a \<^verbatim>\<open>TypeError\<close> otherwise (no other JSON value has a callable \<^verbatim>\<open>join\<close>).
\<close>

fun joinArgs :: "json option \<Rightarrow> error + string" where
  "joinArgs None = Inr []"
| "joinArgs (Some JNull) = Inr []"
| "joinArgs (Some (JArray xs)) =
     bindE (elements_js xs) (\<lambda>ss. Inr (or_js (join '' '' ss) []))"
| "joinArgs (Some (JBool b)) = Inl TypeError"
| "joinArgs (Some (JNumber n)) = Inl TypeError"
| "joinArgs (Some (JString s)) = Inl TypeError"
| "joinArgs (Some (JObject kvs)) = Inl TypeError"

subsection \<open>The collaborators\<close>

text \<open>
  Modelled from the spec: the types \<^verbatim>\<open>McpHub\<close>, \<^verbatim>\<open>McpServer\<close>, \<^verbatim>\<open>McpTool\<close> and
  \<^verbatim>\<open>BrowserSettings\<close> are declared outside the sources at hand. Their fields are the ones
  the section providers read, with the specification's data model for what they hold: a
  tool has a name and a description; a server has a name, a configuration descriptor (a
  JSON string), a connection status (the code compares it with \<^verbatim>\<open>"connected"\<close>) and an
  optional list of tools; the browser settings hold the viewport's width and height, two
  numbers, each carried as the text JavaScript prints for it.

  The hub is what one call of the assembly observes of it: its mode, the servers it lists,
  and the two paths it looks up. The listing and the lookups may fail.
\<close>

record McpTool =
  tool_name :: string
  tool_description :: string

record McpServer =
  server_name :: string
  server_config :: string
  server_status :: string
  server_tools :: "McpTool list option"

record McpHub =
  getMode :: string
  getServers :: "error + McpServer list"
  getMcpServersPath :: "error + string"
  getMcpSettingsFilePath :: "error + string"

record Viewport =
  width :: string
  height :: string

record BrowserSettings =
  viewport :: Viewport

text \<open>The host: \<^verbatim>\<open>osName()\<close>, \<^verbatim>\<open>getShell()\<close>, \<^verbatim>\<open>os.homedir()\<close> and \<^verbatim>\<open>JSON.parse\<close>.\<close>

record host =
  osName :: string
  getShell :: string
  homedir :: string
  JSON_parse :: "string \<Rightarrow> json option"

text \<open>
  The section providers that \<^verbatim>\<open>index.ts\<close> imports and whose code is not among the sources:
  each is a parameter, with the arguments \<^verbatim>\<open>index.ts\<close> passes. The capabilities provider
  is awaited and may reject.
\<close>

record providers =
  getBasePrompt :: string
  getToolUsePrompt :: string
  getExecuteCommandPrompt :: "string \<Rightarrow> string"
  getListCodeDefinitionNamesPrompt :: "string \<Rightarrow> string"
  getListFilesPrompt :: "string \<Rightarrow> string"
  getReadFilePrompt :: "string \<Rightarrow> string"
  getReplaceInFilePrompt :: "string \<Rightarrow> string"
  getSearchFilesPrompt :: "string \<Rightarrow> string"
  getWriteToFilePrompt :: "string \<Rightarrow> string"
  getAskFollowupQuestionPrompt :: string
  getAttemptCompletionPrompt :: string
  getUseMcpToolPrompt :: string
  getAccessMcpResourcePrompt :: string
  getModesPrompt :: string
  getCapabilitiesPrompt :: "string \<Rightarrow> bool \<Rightarrow> McpHub \<Rightarrow> error + string"
  getEditingPrompt :: string
  getObjectivePrompt :: string

subsection \<open>The static text of the sections\<close>

text \<open>
  The text of each template literal, cut at its placeholders; one line of the source is one
  literal here.
\<close>

definition getPlanModeResponsePrompt :: string where
  \<open>getPlanModeResponsePrompt =
    ''\<newline>'' @
    ''## plan_mode_response\<newline>'' @
    ''Description: Respond to the user's inquiry in an effort to plan a solution to the user's task. This tool should be used when you need to provide a response to a question or statement from the user about how you plan to accomplish the task. This tool is only available in PLAN MODE. The environment_details will specify the current mode, if it is not PLAN MODE then you should not use this tool. Depending on the user's message, you may ask questions to get clarification about the user's request, architect a solution to the task, and to brainstorm ideas with the user.\<newline>'' @
    ''Parameters:\<newline>'' @
    ''- response: (required) The response to provide to the user. Do not try to use tools in this parameter, this is simply a chat response.\<newline>'' @
    ''Usage:\<newline>'' @
    ''<plan_mode_response>\<newline>'' @
    ''<response>Your response here</response>\<newline>'' @
    ''</plan_mode_response>\<newline>''\<close>

definition browser_action_text_1 :: string where
  \<open>browser_action_text_1 =
    ''\<newline>'' @
    ''   ## browser_action\<newline>'' @
    ''   Description: Request to interact with a Puppeteer-controlled browser. Every action, except `close`, will be responded to with a screenshot of the browser's current state, along with any new console logs. You may only perform one browser action per message, and wait for the user's response including a screenshot and logs to determine the next action.\<newline>'' @
    ''   - The sequence of actions **must always start with** launching the browser at a URL, and **must always end with** closing the browser. If you need to visit a new URL that is not possible to navigate to from the current webpage, you must first close the browser, then launch again at the new URL.\<newline>'' @
    ''   - While the browser is active, only the `browser_action` tool can be used. No other tools should be called during this time. You may proceed to use other tools only after closing the browser.\<newline>'' @
    ''   - The browser window has a resolution of ''\<close>

definition browser_action_text_3 :: string where
  \<open>browser_action_text_3 =
    '' pixels. When performing any click actions, ensure the coordinates are within this resolution range.\<newline>'' @
    ''   - Before clicking on any elements such as icons, links, or buttons, you must consult the provided screenshot of the page to determine the coordinates of the element. The click should be targeted at the **center of the element**, not on its edges.\<newline>'' @
    ''   Parameters:\<newline>'' @
    ''   - action: (required) The action to perform. The available actions are:\<newline>'' @
    ''       * launch: Launch a new Puppeteer-controlled browser instance at the specified URL. This **must always be the first action**.\<newline>'' @
    ''           - Use with the `url` parameter to provide the URL.\<newline>'' @
    ''           - Ensure the URL is valid and includes the appropriate protocol (e.g. http://localhost:3000/page, file:///path/to/file.html, etc.)\<newline>'' @
    ''       * click: Click at a specific x,y coordinate.\<newline>'' @
    ''           - Use with the `coordinate` parameter to specify the location.\<newline>'' @
    ''           - Always click in the center of an element (icon, button, link, etc.) based on coordinates derived from a screenshot.\<newline>'' @
    ''       * type: Type a string of text on the keyboard. You might use this after clicking on a text field to input text.\<newline>'' @
    ''           - Use with the `text` parameter to provide the string to type.\<newline>'' @
    ''       * scroll_down: Scroll down the page by one page height.\<newline>'' @
    ''       * scroll_up: Scroll up the page by one page height.\<newline>'' @
    ''       * close: Close the Puppeteer-controlled browser instance. This **must always be the final browser action**.\<newline>'' @
    ''   - url: (optional) Use this for providing the URL for the `launch` action.\<newline>'' @
    ''   - coordinate: (optional) The X and Y coordinates for the `click` action. Coordinates should be within the ''\<close>

definition browser_action_text_5 :: string where
  \<open>browser_action_text_5 =
    '' resolution.\<newline>'' @
    ''   - text: (optional) Use this for providing the text for the `type` action.\<newline>'' @
    ''   Usage:\<newline>'' @
    ''   <browser_action>\<newline>'' @
    ''   <action>Action to perform (e.g., launch, click, type, scroll_down, scroll_up, close)</action>\<newline>'' @
    ''   <url>URL to launch the browser at (optional)</url>\<newline>'' @
    ''   <coordinate>x,y coordinates (optional)</coordinate>\<newline>'' @
    ''   <text>Text to type (optional)</text>\<newline>'' @
    ''   </browser_action>\<newline>'' @
    ''   ''\<close>

definition rules_text_1 :: string where
  \<open>rules_text_1 =
    ''\<newline>'' @
    ''====\<newline>'' @
    ''\<newline>'' @
    ''RULES\<newline>'' @
    ''\<newline>'' @
    ''- Your current working directory is: ''\<close>

definition rules_text_2 :: string where
  \<open>rules_text_2 =
    ''\<newline>'' @
    ''- You cannot `cd` into a different directory to complete a task. You are stuck operating from '' @ [CHR 0x27]\<close>

definition rules_text_3 :: string where
  \<open>rules_text_3 =
    ''', so be sure to pass in the correct 'path' parameter when using tools that require a path.\<newline>'' @
    ''- Do not use the ~ character or $HOME to refer to the home directory.\<newline>'' @
    ''- Before using the execute_command tool, you must first think about the SYSTEM INFORMATION context provided to understand the user's environment and tailor your commands to ensure they are compatible with their system. You must also consider if the command you need to run should be executed in a specific directory outside of the current working directory '' @ [CHR 0x27]\<close>

definition rules_text_4 :: string where
  \<open>rules_text_4 =
    ''', and if so prepend with `cd`'ing into that directory && then executing the command (as one command since you are stuck operating from '' @ [CHR 0x27]\<close>

definition rules_text_5 :: string where
  \<open>rules_text_5 =
    ''').\<newline>'' @
    ''- When using the search_files tool, craft your regex patterns carefully to balance specificity and flexibility. Based on the user's task you may use it to find code patterns, TODO comments, function definitions, or any text-based information across the project. The results include context, so analyze the surrounding code to better understand the matches.\<newline>'' @
    ''- When creating a new project (such as an app, website, or any software project), organize all new files within a dedicated project directory unless the user specifies otherwise. Use appropriate file paths when creating files, as the write_to_file tool will automatically create any necessary directories.\<newline>'' @
    ''- Be sure to consider the type of project (e.g. Python, JavaScript, web application) when determining the appropriate structure and files to include. Also consider what files may be most relevant to accomplishing the task.\<newline>'' @
    ''- When making changes to code, always consider the context in which the code is being used. Ensure that your changes are compatible with the existing codebase and that they follow the project's coding standards and best practices.\<newline>'' @
    ''- When you want to modify a file, use the replace_in_file or write_to_file tool directly with the desired changes. You do not need to display the changes before using the tool.\<newline>'' @
    ''- Do not ask for more information than necessary. Use the tools provided to accomplish the user's request efficiently and effectively. When you've completed your task, you must use the attempt_completion tool to present the result to the user.\<newline>'' @
    ''- You are only allowed to ask the user questions using the ask_followup_question tool. Use this tool only when you need additional details to complete a task, and be sure to use a clear and concise question that will help you move forward with the task.\<newline>'' @
    ''- When executing commands, if you don't see the expected output, assume the terminal executed the command successfully and proceed with the task. If you absolutely need to see the actual terminal output, use the ask_followup_question tool to request the user to copy and paste it back to you.\<newline>'' @
    ''- The user may provide a file's contents directly in their message, in which case you shouldn't use the read_file tool to get the file contents again since you already have it.\<newline>'' @
    ''- Your goal is to try to accomplish the user's task, NOT engage in a back and forth conversation.''\<close>

definition rules_text_browser_tasks :: string where
  \<open>rules_text_browser_tasks =
    ''\<newline>'' @
    ''- The user may ask generic non-development tasks, such as "what's the latest news" or "look up the weather in San Diego", in which case you might use the browser_action tool to complete the task if it makes sense to do so, rather than trying to create a website or using curl to answer the question.''\<close>

definition rules_text_6 :: string where
  \<open>rules_text_6 =
    ''\<newline>'' @
    ''- NEVER end attempt_completion result with a question or request to engage in further conversation! Formulate the end of your result in a way that is final and does not require further input from the user.\<newline>'' @
    ''- You are STRICTLY FORBIDDEN from starting your messages with "Great", "Certainly", "Okay", "Sure". You should NOT be conversational in your responses, but rather direct and to the point.\<newline>'' @
    ''- When presented with images, utilize your vision capabilities to thoroughly examine them and extract meaningful information.\<newline>'' @
    ''- At the end of each user message, you will automatically receive environment_details. This information is not written by the user themselves, but is auto-generated to provide potentially relevant context about the project structure and environment.\<newline>'' @
    ''- Before executing commands, check the "Actively Running Terminals" section in environment_details. If present, consider how these active processes might impact your task.\<newline>'' @
    ''- When using the replace_in_file tool, you must include complete lines in your SEARCH blocks, not partial lines.\<newline>'' @
    ''- When using the replace_in_file tool, if you use multiple SEARCH/REPLACE blocks, list them in the order they appear in the file.\<newline>'' @
    ''- It is critical you wait for the user's response after each tool use, in order to confirm the success of the tool use.''\<close>

definition rules_text_browser_example :: string where
  \<open>rules_text_browser_example =
    '' For example, if testing a web app, you might use browser_action to launch the site, wait for confirmation and a screenshot, then proceed with further actions.''\<close>

definition mcp_creation_text_1 :: string where
  \<open>mcp_creation_text_1 =
    ''\<newline>'' @
    ''## Creating an MCP Server\<newline>'' @
    ''\<newline>'' @
    ''The user may ask you something along the lines of "add a tool" that does some function, in other words to create an MCP server that provides tools and resources that may connect to external APIs for example. You have the ability to create an MCP server and add it to a configuration file that will then expose the tools and resources for you to use with `use_mcp_tool` and `access_mcp_resource`.\<newline>'' @
    ''\<newline>'' @
    ''When creating MCP servers, it's important to understand that they operate in a non-interactive environment. All credentials and authentication tokens must be provided upfront through environment variables in the MCP settings configuration.\<newline>'' @
    ''\<newline>'' @
    ''Unless the user specifies otherwise, new MCP servers should be created in: ''\<close>

definition mcp_creation_text_2 :: string where
  \<open>mcp_creation_text_2 =
    ''\<newline>'' @
    ''\<newline>'' @
    ''### Example MCP Server\<newline>'' @
    ''\<newline>'' @
    ''For example, if the user wanted to give you the ability to retrieve weather information, you could create an MCP server that uses the OpenWeather API:\<newline>'' @
    ''\<newline>'' @
    ''1. Use the `create-typescript-server` tool to bootstrap a new project:\<newline>'' @
    ''\<newline>'' @
    ''```bash\<newline>'' @
    ''cd ''\<close>

definition mcp_creation_text_3 :: string where
  \<open>mcp_creation_text_3 =
    ''\<newline>'' @
    ''npx @modelcontextprotocol/create-server weather-server\<newline>'' @
    ''cd weather-server\<newline>'' @
    ''npm install axios\<newline>'' @
    ''```\<newline>'' @
    ''\<newline>'' @
    ''2. Replace `src/index.ts` with:\<newline>'' @
    ''\<newline>'' @
    ''```typescript\<newline>'' @
    ''#!/usr/bin/env node\<newline>'' @
    ''import { Server } from '@modelcontextprotocol/sdk/server/index.js';\<newline>'' @
    ''import { StdioServerTransport } from '@modelcontextprotocol/sdk/server/stdio.js';\<newline>'' @
    ''import { CallToolRequestSchema, ErrorCode, ListToolsRequestSchema, McpError } from '@modelcontextprotocol/sdk/types.js';\<newline>'' @
    ''import axios from 'axios';\<newline>'' @
    ''\<newline>'' @
    ''const API_KEY = process.env.OPENWEATHER_API_KEY;\<newline>'' @
    ''if (!API_KEY) throw new Error('OPENWEATHER_API_KEY required');\<newline>'' @
    ''\<newline>'' @
    ''class WeatherServer {\<newline>'' @
    ''    private server: Server;\<newline>'' @
    ''    private axiosInstance;\<newline>'' @
    ''\<newline>'' @
    ''    constructor() {\<newline>'' @
    ''        this.server = new Server({ name: 'weather-server', version: '0.1.0' }, { capabilities: { tools: {} } });\<newline>'' @
    ''        this.axiosInstance = axios.create({ baseURL: 'http://api.openweathermap.org/data/2.5', params: { appid: API_KEY, units: 'metric' } });\<newline>'' @
    ''        this.setupToolHandlers();\<newline>'' @
    ''    }\<newline>'' @
    ''\<newline>'' @
    ''    private setupToolHandlers() {\<newline>'' @
    ''        this.server.setRequestHandler(ListToolsRequestSchema, async () => ({\<newline>'' @
    ''            tools: [{ name: 'get_forecast', description: 'Get weather forecast', inputSchema: { type: 'object', properties: { city: { type: 'string' } }, required: ['city'] } }]\<newline>'' @
    ''        }));\<newline>'' @
    ''        this.server.setRequestHandler(CallToolRequestSchema, async (request) => {\<newline>'' @
    ''            if (request.params.name === 'get_forecast') {\<newline>'' @
    ''                const city = request.params.arguments.city;\<newline>'' @
    ''                const response = await this.axiosInstance.get('weather', { params: { q: city } });\<newline>'' @
    ''                return { content: [{ type: 'text', text: JSON.stringify(response.data, null, 2) }] };\<newline>'' @
    ''            }\<newline>'' @
    ''            throw new McpError(ErrorCode.MethodNotFound, `Unknown tool: ${request.params.name}`);\<newline>'' @
    ''        });\<newline>'' @
    ''    }\<newline>'' @
    ''\<newline>'' @
    ''    async run() {\<newline>'' @
    ''        const transport = new StdioServerTransport();\<newline>'' @
    ''        await this.server.connect(transport);\<newline>'' @
    ''        console.error('Weather MCP server running');\<newline>'' @
    ''    }\<newline>'' @
    ''}\<newline>'' @
    ''\<newline>'' @
    ''const server = new WeatherServer();\<newline>'' @
    ''server.run().catch(console.error);\<newline>'' @
    ''```\<newline>'' @
    ''\<newline>'' @
    ''3. Build the server:\<newline>'' @
    ''\<newline>'' @
    ''```bash\<newline>'' @
    ''npm run build\<newline>'' @
    ''```\<newline>'' @
    ''\<newline>'' @
    ''4. Add to the MCP settings file at '' @ [CHR 0x27]\<close>

definition mcp_creation_text_4 :: string where
  \<open>mcp_creation_text_4 =
    ''':\<newline>'' @
    ''\<newline>'' @
    ''```json\<newline>'' @
    ''{\<newline>'' @
    ''    "mcpServers": {\<newline>'' @
    ''        "weather": {\<newline>'' @
    ''            "command": "node",\<newline>'' @
    ''            "args": ["''\<close>

definition mcp_creation_text_5 :: string where
  \<open>mcp_creation_text_5 =
    ''/weather-server/build/index.js"],\<newline>'' @
    ''            "env": { "OPENWEATHER_API_KEY": "user-provided-api-key" },\<newline>'' @
    ''            "disabled": false,\<newline>'' @
    ''            "autoApprove": []\<newline>'' @
    ''        }\<newline>'' @
    ''    }\<newline>'' @
    ''}\<newline>'' @
    ''```\<newline>'' @
    ''\<newline>'' @
    ''## Editing MCP Servers\<newline>'' @
    ''\<newline>'' @
    ''The user may ask to add tools or resources to an existing MCP server (e.g., ''\<close>

definition mcp_creation_text_6 :: string where
  \<open>mcp_creation_text_6 =
    ''). This is possible if you can locate the repository via server arguments.\<newline>'' @
    ''\<newline>'' @
    ''# MCP Servers Are Not Always Necessary\<newline>'' @
    ''\<newline>'' @
    ''Only implement MCP servers when explicitly requested (e.g., "add a tool that...").\<newline>''\<close>

definition mcp_servers_text_1 :: string where
  \<open>mcp_servers_text_1 =
    ''\<newline>'' @
    ''====\<newline>'' @
    ''\<newline>'' @
    ''MCP SERVERS\<newline>'' @
    ''\<newline>'' @
    ''The Model Context Protocol (MCP) enables communication between the system and locally running MCP servers that provide additional tools and resources to extend your capabilities.\<newline>'' @
    ''\<newline>'' @
    ''# Connected MCP Servers\<newline>'' @
    ''\<newline>'' @
    ''When a server is connected, you can use the server's tools via the `use_mcp_tool` tool, and access the server's resources via the `access_mcp_resource` tool.\<newline>'' @
    ''\<newline>''\<close>

definition mcp_servers_text_2 :: string where
  \<open>mcp_servers_text_2 =
    ''\<newline>'' @
    ''\<newline>'' @
    ''- MCP operations should be used one at a time, similar to other tool usage. Wait for confirmation of success before proceeding with additional operations.\<newline>''\<close>

subsection \<open>The section providers\<close>

text \<open>\<^verbatim>\<open>tools/browser_action.ts\<close>\<close>

definition getBrowserActionPrompt :: "BrowserSettings \<Rightarrow> string" where
  "getBrowserActionPrompt browserSettings =
     browser_action_text_1 @ width (viewport browserSettings) @ ''x'' @
     height (viewport browserSettings) @
     browser_action_text_3 @ width (viewport browserSettings) @ ''x'' @
     height (viewport browserSettings) @
     browser_action_text_5"

text \<open>\<^verbatim>\<open>core_prompts/system_info.ts\<close>\<close>

definition getSystemInfoPrompt :: "host \<Rightarrow> string \<Rightarrow> string" where
  "getSystemInfoPrompt h cwd =
     ''\<newline>'' @
     ''====\<newline>'' @
     ''\<newline>'' @
     ''SYSTEM INFORMATION\<newline>'' @
     ''\<newline>'' @
     ''Operating System: '' @ osName h @ ''\<newline>'' @
     ''Default Shell: '' @ getShell h @ ''\<newline>'' @
     ''Home Directory: '' @ toPosix (homedir h) @ ''\<newline>'' @
     ''Current Working Directory: '' @ toPosix cwd @ ''\<newline>''"

text \<open>\<^verbatim>\<open>core_prompts/rules.ts\<close>: two sentences are added when the agent supports computer use.\<close>

definition getRulesPrompt :: "string \<Rightarrow> bool \<Rightarrow> string" where
  "getRulesPrompt cwd supportsComputerUse =
     rules_text_1 @ toPosix cwd @ rules_text_2 @ toPosix cwd @ rules_text_3 @ toPosix cwd @
     rules_text_4 @ toPosix cwd @ rules_text_5 @
     (if supportsComputerUse then rules_text_browser_tasks else []) @
     rules_text_6 @
     (if supportsComputerUse then rules_text_browser_example else []) @
     ''\<newline>''"

text \<open>
  \<^verbatim>\<open>mcp/servers.ts\<close>. The callback of \<^verbatim>\<open>map\<close>: the configuration is parsed first, then the
  tool lines are built, then the entry is put together: \<^verbatim>\<open>config.command\<close> is read and
  converted to a string, then \<^verbatim>\<open>config.args\<close> is read and joined.
\<close>

definition tool_line :: "McpTool \<Rightarrow> string" where
  "tool_line tool = ''- '' @ tool_name tool @ '': '' @ tool_description tool"

definition server_entry :: "host \<Rightarrow> McpServer \<Rightarrow> error + string" where
  "server_entry h server =
     (case JSON_parse h (server_config server) of
        None \<Rightarrow> Inl SyntaxError
      | Some config \<Rightarrow>
          let tools = or_js (case server_tools server of
                               None \<Rightarrow> []
                             | Some ts \<Rightarrow> join ''\<newline>'' (map tool_line ts)) []
          in bindE (getProp config ''command'') (\<lambda>command.
             bindE (template_js command) (\<lambda>commandText.
             bindE (getProp config ''args'') (\<lambda>args.
             bindE (joinArgs args) (\<lambda>joined.
               Inr (''## '' @ server_name server @ '' (`'' @ commandText @ '' '' @
                    joined @ ''`)\<newline>\<newline>### Available Tools\<newline>'' @ tools))))))"

definition getMcpServersPrompt :: "host \<Rightarrow> McpHub \<Rightarrow> error + string" where
  "getMcpServersPrompt h mcpHub =
     (if getMode mcpHub = ''off'' then Inr []
      else
        bindE (getServers mcpHub) (\<lambda>servers.
        bindE (mapE (server_entry h) (filter (\<lambda>server. server_status server = ''connected'') servers))
          (\<lambda>entries.
            let connectedServers =
                  or_js (join ''\<newline>\<newline>'' entries) ''(No MCP servers currently connected)''
            in Inr (mcp_servers_text_1 @ connectedServers @ mcp_servers_text_2))))"

text \<open>\<^verbatim>\<open>mcp/creation.ts\<close>: the two paths are awaited first, in this order.\<close>

definition getMcpCreationPrompt :: "McpHub \<Rightarrow> error + string" where
  "getMcpCreationPrompt mcpHub =
     bindE (getMcpServersPath mcpHub) (\<lambda>mcpServersPath.
     bindE (getMcpSettingsFilePath mcpHub) (\<lambda>mcpSettingsFilePath.
     bindE (getServers mcpHub) (\<lambda>servers.
       let connectedServers =
             or_js (join '', '' (map server_name
                      (filter (\<lambda>server. server_status server = ''connected'') servers)))
                   ''(None running currently)''
       in Inr (mcp_creation_text_1 @ mcpServersPath @ mcp_creation_text_2 @ mcpServersPath @
               mcp_creation_text_3 @ mcpSettingsFilePath @ mcp_creation_text_4 @ mcpServersPath @
               mcp_creation_text_5 @ connectedServers @ mcp_creation_text_6))))"

subsection \<open>The assembly\<close>

text \<open>
  \<^verbatim>\<open>SYSTEM_PROMPT\<close> of \<^verbatim>\<open>index.ts\<close>. The array literal is evaluated from left to right, so
  the first of the capabilities provider, the servers section and the creation section to
  fail decides the error. The browser section is spliced in at index 3 afterwards.
\<close>

definition SYSTEM_PROMPT_sections ::
  "host \<Rightarrow> providers \<Rightarrow> string \<Rightarrow> bool \<Rightarrow> McpHub \<Rightarrow> BrowserSettings \<Rightarrow> error + string list" where
  "SYSTEM_PROMPT_sections h p cwd supportsComputerUse mcpHub browserSettings =
     bindE (getCapabilitiesPrompt p cwd supportsComputerUse mcpHub) (\<lambda>capabilities.
     bindE (getMcpServersPrompt h mcpHub) (\<lambda>mcpServers.
     bindE (getMcpCreationPrompt mcpHub) (\<lambda>mcpCreation.
       let sections =
             [ getBasePrompt p,
               getToolUsePrompt p,
               getExecuteCommandPrompt p cwd,
               getListCodeDefinitionNamesPrompt p cwd,
               getListFilesPrompt p cwd,
               getReadFilePrompt p cwd,
               getReplaceInFilePrompt p cwd,
               getSearchFilesPrompt p cwd,
               getWriteToFilePrompt p cwd,
               getAskFollowupQuestionPrompt p,
               getAttemptCompletionPrompt p,
               getPlanModeResponsePrompt,
               getUseMcpToolPrompt p,
               getAccessMcpResourcePrompt p,
               getModesPrompt p,
               capabilities,
               getEditingPrompt p,
               mcpServers,
               getSystemInfoPrompt h cwd,
               getObjectivePrompt p,
               getRulesPrompt cwd supportsComputerUse,
               mcpCreation ]
       in Inr (if supportsComputerUse
               then splice_js 3 0 [getBrowserActionPrompt browserSettings] sections
               else sections))))"

definition SYSTEM_PROMPT ::
  "host \<Rightarrow> providers \<Rightarrow> string \<Rightarrow> bool \<Rightarrow> McpHub \<Rightarrow> BrowserSettings \<Rightarrow> error + string" where
  "SYSTEM_PROMPT h p cwd supportsComputerUse mcpHub browserSettings =
     bindE (SYSTEM_PROMPT_sections h p cwd supportsComputerUse mcpHub browserSettings)
       (\<lambda>sections. Inr (join ''\<newline>\<newline>'' sections))"

subsection \<open>A worked example\<close>

text \<open>
  A Linux host, stub texts for the providers that are parameters, and a hub in mode
  \<^verbatim>\<open>full\<close> with one connected server \<^verbatim>\<open>alpha\<close> that offers the tool \<^verbatim>\<open>fetch\<close>. The stub
  parser knows the one configuration string of the example.
\<close>

definition example_parse :: "string \<Rightarrow> json option" where
  \<open>example_parse s =
     (if s = ''{"command":"node","args":["alpha.js"]}''
      then Some (JObject [(''command'', JString ''node''), (''args'', JArray [JString ''alpha.js''])])
      else None)\<close>

definition example_host :: host where
  "example_host =
     \<lparr>osName = ''Linux'', getShell = ''/bin/bash'', homedir = ''/home/dev'',
      JSON_parse = example_parse\<rparr>"

definition example_providers :: providers where
  "example_providers =
     \<lparr>getBasePrompt = ''BASE'',
      getToolUsePrompt = ''TOOL USE'',
      getExecuteCommandPrompt = (\<lambda>cwd. ''## execute_command in '' @ cwd),
      getListCodeDefinitionNamesPrompt = (\<lambda>cwd. ''## list_code_definition_names in '' @ cwd),
      getListFilesPrompt = (\<lambda>cwd. ''## list_files in '' @ cwd),
      getReadFilePrompt = (\<lambda>cwd. ''## read_file in '' @ cwd),
      getReplaceInFilePrompt = (\<lambda>cwd. ''## replace_in_file in '' @ cwd),
      getSearchFilesPrompt = (\<lambda>cwd. ''## search_files in '' @ cwd),
      getWriteToFilePrompt = (\<lambda>cwd. ''## write_to_file in '' @ cwd),
      getAskFollowupQuestionPrompt = ''## ask_followup_question'',
      getAttemptCompletionPrompt = ''## attempt_completion'',
      getUseMcpToolPrompt = ''## use_mcp_tool'',
      getAccessMcpResourcePrompt = ''## access_mcp_resource'',
      getModesPrompt = ''MODES'',
      getCapabilitiesPrompt = (\<lambda>cwd supportsComputerUse mcpHub. Inr ''CAPABILITIES''),
      getEditingPrompt = ''EDITING FILES'',
      getObjectivePrompt = ''OBJECTIVE''\<rparr>"

definition alpha :: McpServer where
  \<open>alpha =
     \<lparr>server_name = ''alpha'',
      server_config = ''{"command":"node","args":["alpha.js"]}'',
      server_status = ''connected'',
      server_tools = Some [\<lparr>tool_name = ''fetch'', tool_description = ''retrieves a URL''\<rparr>]\<rparr>\<close>

definition example_hub :: McpHub where
  "example_hub =
     \<lparr>getMode = ''full'',
      getServers = Inr [alpha],
      getMcpServersPath = Inr ''/home/dev/Documents/Cline/MCP'',
      getMcpSettingsFilePath = Inr ''/home/dev/.config/cline_mcp_settings.json''\<rparr>"

definition example_settings :: BrowserSettings where
  "example_settings = \<lparr>viewport = \<lparr>width = ''900'', height = ''600''\<rparr>\<rparr>"

text \<open>A path as a Windows host writes it: \<^verbatim>\<open>C:\<close>, then \<^verbatim>\<open>Users\<close>, \<^verbatim>\<open>dev\<close> and \<^verbatim>\<open>MCP\<close>, each after a backslash.\<close>

definition example_windows_path :: string where
  "example_windows_path =
     ''C:'' @ [CHR 0x5C] @ ''Users'' @ [CHR 0x5C] @ ''dev'' @ [CHR 0x5C] @ ''MCP''"

section \<open>Properties\<close>

subsection \<open>Auxiliary facts\<close>

lemma bindE_Inl [simp]: "bindE (Inl e) f = Inl e"
  by (simp add: bindE_def)

lemma bindE_Inr [simp]: "bindE (Inr v) f = f v"
  by (simp add: bindE_def)

lemma bindE_eq_Inr: "bindE m f = Inr y \<longleftrightarrow> (\<exists>v. m = Inr v \<and> f v = Inr y)"
  by (cases m) simp_all

lemma mapE_isl: "x \<in> set xs \<Longrightarrow> isl (f x) \<Longrightarrow> isl (mapE f xs)"
proof (induction xs)
  case Nil
  then show ?case by simp
next
  case (Cons a xs)
  show ?case
  proof (cases "f a")
    case (Inl e)
    then show ?thesis by simp
  next
    case (Inr y)
    with Cons have "isl (mapE f xs)" by auto
    with Inr show ?thesis by (cases "mapE f xs") simp_all
  qed
qed

lemma join_Cons: "ys \<noteq> [] \<Longrightarrow> join sep (x # ys) = x @ sep @ join sep ys"
  by (cases ys) simp_all

lemma join_append:
  "xs \<noteq> [] \<Longrightarrow> ys \<noteq> [] \<Longrightarrow> join sep (xs @ ys) = join sep xs @ sep @ join sep ys"
proof (induction sep xs rule: join.induct)
  case (1 sep)
  then show ?case by simp
next
  case (2 sep x)
  then show ?case by (simp add: join_Cons)
next
  case (3 sep x y ys)
  then show ?case by simp
qed

lemma length_join:
  "length (join sep xs) = sum_list (map length xs) + length sep * (length xs - 1)"
  by (induction sep xs rule: join.induct) simp_all

lemma sum_list_length_filter_nonempty:
  "sum_list (map length (filter (\<lambda>s. s \<noteq> []) xs)) = sum_list (map length xs)"
  by (induction xs) simp_all

text \<open>Skipping the empty entries of a list changes what \<open>join\<close> returns, by its length.\<close>

lemma join_filter_neq:
  assumes "sep \<noteq> []" and "[] \<in> set xs" and "x \<in> set xs" and "x \<noteq> []"
  shows "join sep (filter (\<lambda>s. s \<noteq> []) xs) \<noteq> join sep xs"
proof -
  let ?ys = "filter (\<lambda>s. s \<noteq> []) xs"
  have "length ?ys < length xs"
    using assms(2) by (simp add: length_filter_less)
  moreover have "0 < length ?ys"
    using assms(3,4) by (simp add: filter_empty_conv) blast
  ultimately have "length ?ys - 1 < length xs - 1"
    by linarith
  then have "length sep * (length ?ys - 1) < length sep * (length xs - 1)"
    using assms(1) by simp
  then have "length (join sep ?ys) < length (join sep xs)"
    by (simp add: length_join sum_list_length_filter_nonempty)
  then show ?thesis by auto
qed

lemma sublist_join: "x \<in> set xs \<Longrightarrow> sublist x (join sep xs)"
proof (induction sep xs rule: join.induct)
  case (1 sep)
  then show ?case by simp
next
  case (2 sep y)
  then show ?case by simp
next
  case (3 sep y z zs)
  show ?case
  proof (cases "x = y")
    case True
    then show ?thesis by simp
  next
    case False
    with 3 have "sublist x (join sep (z # zs))" by simp
    then obtain ps ss where "join sep (z # zs) = ps @ x @ ss"
      by (auto simp: sublist_def)
    then have "join sep (y # z # zs) = (y @ sep @ ps) @ x @ ss" by simp
    then show ?thesis unfolding sublist_def by blast
  qed
qed

lemma sublist_trans: "sublist xs ys \<Longrightarrow> sublist ys zs \<Longrightarrow> sublist xs zs"
  by (rule sublist_order.order.trans)

text \<open>The section list of a call in which the three fallible sections succeed.\<close>

lemma SYSTEM_PROMPT_sections_Inr:
  assumes "getCapabilitiesPrompt p cwd f hub = Inr cap"
    and "getMcpServersPrompt h hub = Inr srv"
    and "getMcpCreationPrompt hub = Inr cre"
  shows "SYSTEM_PROMPT_sections h p cwd f hub bs =
     Inr ([getBasePrompt p, getToolUsePrompt p, getExecuteCommandPrompt p cwd] @
          (if f then [getBrowserActionPrompt bs] else []) @
          [getListCodeDefinitionNamesPrompt p cwd, getListFilesPrompt p cwd,
           getReadFilePrompt p cwd, getReplaceInFilePrompt p cwd, getSearchFilesPrompt p cwd,
           getWriteToFilePrompt p cwd, getAskFollowupQuestionPrompt p,
           getAttemptCompletionPrompt p, getPlanModeResponsePrompt, getUseMcpToolPrompt p,
           getAccessMcpResourcePrompt p, getModesPrompt p, cap, getEditingPrompt p, srv,
           getSystemInfoPrompt h cwd, getObjectivePrompt p, getRulesPrompt cwd f, cre])"
  using assms by (simp add: SYSTEM_PROMPT_sections_def splice_js_def)

lemma SYSTEM_PROMPT_sections_success:
  assumes "SYSTEM_PROMPT_sections h p cwd f hub bs = Inr ss"
  shows "\<exists>cap srv cre. getCapabilitiesPrompt p cwd f hub = Inr cap \<and>
     getMcpServersPrompt h hub = Inr srv \<and> getMcpCreationPrompt hub = Inr cre"
  using assms by (auto simp: SYSTEM_PROMPT_sections_def bindE_eq_Inr)

text \<open>The document of a call in which the three fallible sections succeed, written out.\<close>

lemma SYSTEM_PROMPT_Inr:
  assumes "getCapabilitiesPrompt p cwd f hub = Inr cap"
    and "getMcpServersPrompt h hub = Inr srv"
    and "getMcpCreationPrompt hub = Inr cre"
  shows "SYSTEM_PROMPT h p cwd f hub bs =
     Inr (getBasePrompt p @ ''\<newline>\<newline>'' @
          getToolUsePrompt p @ ''\<newline>\<newline>'' @
          getExecuteCommandPrompt p cwd @ ''\<newline>\<newline>'' @
          (if f then getBrowserActionPrompt bs @ ''\<newline>\<newline>'' else []) @
          getListCodeDefinitionNamesPrompt p cwd @ ''\<newline>\<newline>'' @
          getListFilesPrompt p cwd @ ''\<newline>\<newline>'' @
          getReadFilePrompt p cwd @ ''\<newline>\<newline>'' @
          getReplaceInFilePrompt p cwd @ ''\<newline>\<newline>'' @
          getSearchFilesPrompt p cwd @ ''\<newline>\<newline>'' @
          getWriteToFilePrompt p cwd @ ''\<newline>\<newline>'' @
          getAskFollowupQuestionPrompt p @ ''\<newline>\<newline>'' @
          getAttemptCompletionPrompt p @ ''\<newline>\<newline>'' @
          getPlanModeResponsePrompt @ ''\<newline>\<newline>'' @
          getUseMcpToolPrompt p @ ''\<newline>\<newline>'' @
          getAccessMcpResourcePrompt p @ ''\<newline>\<newline>'' @
          getModesPrompt p @ ''\<newline>\<newline>'' @
          cap @ ''\<newline>\<newline>'' @
          getEditingPrompt p @ ''\<newline>\<newline>'' @
          srv @ ''\<newline>\<newline>'' @
          getSystemInfoPrompt h cwd @ ''\<newline>\<newline>'' @
          getObjectivePrompt p @ ''\<newline>\<newline>'' @
          getRulesPrompt cwd f @ ''\<newline>\<newline>'' @
          cre)"
  using SYSTEM_PROMPT_sections_Inr [OF assms, of bs]
  by (cases f) (simp_all add: SYSTEM_PROMPT_def)





text \<open>When the assembly fails, and with which error.\<close>

lemma getMcpCreationPrompt_isl:
  "isl (getMcpCreationPrompt hub) \<longleftrightarrow>
     isl (getMcpServersPath hub) \<or> isl (getMcpSettingsFilePath hub) \<or> isl (getServers hub)"
  by (cases "getMcpServersPath hub"; cases "getMcpSettingsFilePath hub"; cases "getServers hub")
     (simp_all add: getMcpCreationPrompt_def Let_def)

lemma getMcpCreationPrompt_Inl:
  assumes "getMcpCreationPrompt hub = Inl e"
  shows "getMcpServersPath hub = Inl e \<or> getMcpSettingsFilePath hub = Inl e \<or>
     getServers hub = Inl e"
  using assms
  by (cases "getMcpServersPath hub"; cases "getMcpSettingsFilePath hub"; cases "getServers hub")
     (simp_all add: getMcpCreationPrompt_def Let_def)

lemma SYSTEM_PROMPT_isl:
  "isl (SYSTEM_PROMPT h p cwd f hub bs) \<longleftrightarrow>
     isl (getCapabilitiesPrompt p cwd f hub) \<or> isl (getMcpServersPrompt h hub) \<or>
     isl (getMcpCreationPrompt hub)"
  by (cases "getCapabilitiesPrompt p cwd f hub"; cases "getMcpServersPrompt h hub";
      cases "getMcpCreationPrompt hub")
     (simp_all add: SYSTEM_PROMPT_def SYSTEM_PROMPT_sections_def Let_def)

lemma SYSTEM_PROMPT_Inl:
  assumes "SYSTEM_PROMPT h p cwd f hub bs = Inl e"
  shows "getCapabilitiesPrompt p cwd f hub = Inl e \<or> getMcpServersPrompt h hub = Inl e \<or>
     getMcpCreationPrompt hub = Inl e"
proof (cases "getCapabilitiesPrompt p cwd f hub")
  case (Inl a)
  with assms show ?thesis
    by (simp add: SYSTEM_PROMPT_def SYSTEM_PROMPT_sections_def)
next
  case cap: (Inr cap)
  show ?thesis
  proof (cases "getMcpServersPrompt h hub")
    case (Inl a)
    with assms cap show ?thesis
      by (simp add: SYSTEM_PROMPT_def SYSTEM_PROMPT_sections_def)
  next
    case srv: (Inr srv)
    show ?thesis
    proof (cases "getMcpCreationPrompt hub")
      case (Inl a)
      with assms cap srv show ?thesis
        by (simp add: SYSTEM_PROMPT_def SYSTEM_PROMPT_sections_def)
    next
      case (Inr cre)
      with assms cap srv show ?thesis
        by (simp add: SYSTEM_PROMPT_def SYSTEM_PROMPT_sections_def Let_def)
    qed
  qed
qed

text \<open>A document holds the text of its servers section and of its creation section.\<close>

lemma SYSTEM_PROMPT_sublist:
  assumes "getCapabilitiesPrompt p cwd f hub = Inr cap"
    and "getMcpServersPrompt h hub = Inr srv"
    and "getMcpCreationPrompt hub = Inr cre"
  shows "\<exists>d. SYSTEM_PROMPT h p cwd f hub bs = Inr d \<and> sublist srv d \<and> sublist cre d"
proof -
  note S = SYSTEM_PROMPT_sections_Inr [OF assms, of bs]
  let ?ss = "projr (SYSTEM_PROMPT_sections h p cwd f hub bs)"
  have "srv \<in> set ?ss" and "cre \<in> set ?ss"
    by (simp_all add: S)
  then have "sublist srv (join ''\<newline>\<newline>'' ?ss)" and "sublist cre (join ''\<newline>\<newline>'' ?ss)"
    by (simp_all only: sublist_join)
  moreover have "SYSTEM_PROMPT h p cwd f hub bs = Inr (join ''\<newline>\<newline>'' ?ss)"
    by (simp add: SYSTEM_PROMPT_def S)
  ultimately show ?thesis by blast
qed

text \<open>The servers section and the creation section of a hub that lists no connected server.\<close>

lemma servers_placeholder:
  assumes "getMode hub \<noteq> ''off''" and "getServers hub = Inr servers"
    and "filter (\<lambda>server. server_status server = ''connected'') servers = []"
  shows "getMcpServersPrompt h hub =
     Inr (mcp_servers_text_1 @ ''(No MCP servers currently connected)'' @ mcp_servers_text_2)"
  using assms by (simp add: getMcpServersPrompt_def or_js_def)

lemma creation_placeholder:
  assumes "getMcpServersPath hub = Inr sp" and "getMcpSettingsFilePath hub = Inr sf"
    and "getServers hub = Inr servers"
    and "filter (\<lambda>server. server_status server = ''connected'') servers = []"
  shows "getMcpCreationPrompt hub =
     Inr (mcp_creation_text_1 @ sp @ mcp_creation_text_2 @ sp @ mcp_creation_text_3 @ sf @
          mcp_creation_text_4 @ sp @ mcp_creation_text_5 @ ''(None running currently)'' @
          mcp_creation_text_6)"
  using assms by (simp add: getMcpCreationPrompt_def or_js_def)

text \<open>The entry of one server whose configuration parses.\<close>

lemma server_entry_Inr:
  assumes "JSON_parse h (server_config server) = Some config"
    and "getProp config ''command'' = Inr command"
    and "template_js command = Inr commandText"
    and "getProp config ''args'' = Inr args"
    and "joinArgs args = Inr joined"
  shows "server_entry h server =
     Inr (''## '' @ server_name server @ '' (`'' @ commandText @ '' '' @ joined @
          ''`)\<newline>\<newline>### Available Tools\<newline>'' @
          or_js (case server_tools server of None \<Rightarrow> []
                 | Some ts \<Rightarrow> join ''\<newline>'' (map tool_line ts)) [])"
  using assms by (simp add: server_entry_def)

text \<open>The sections of the worked example.\<close>

lemma example_capabilities:
  "getCapabilitiesPrompt example_providers cwd f hub = Inr ''CAPABILITIES''"
  by (simp add: example_providers_def)

lemma example_servers:
  "getMcpServersPrompt example_host example_hub =
     Inr (mcp_servers_text_1 @
          ''## alpha (`node alpha.js`)\<newline>\<newline>### Available Tools\<newline>- fetch: retrieves a URL'' @
          mcp_servers_text_2)"
  by (simp add: getMcpServersPrompt_def example_hub_def example_host_def alpha_def
      server_entry_def example_parse_def tool_line_def or_js_def)

lemma example_creation:
  "getMcpCreationPrompt example_hub =
     Inr (mcp_creation_text_1 @ ''/home/dev/Documents/Cline/MCP'' @
          mcp_creation_text_2 @ ''/home/dev/Documents/Cline/MCP'' @
          mcp_creation_text_3 @ ''/home/dev/.config/cline_mcp_settings.json'' @
          mcp_creation_text_4 @ ''/home/dev/Documents/Cline/MCP'' @
          mcp_creation_text_5 @ ''alpha'' @ mcp_creation_text_6)"
  by (simp add: getMcpCreationPrompt_def example_hub_def alpha_def or_js_def)

lemma getMcpServersPrompt_off: "getMcpServersPrompt h (hub\<lparr>getMode := ''off''\<rparr>) = Inr []"
  by (simp add: getMcpServersPrompt_def)

lemma getMcpCreationPrompt_mode:
  "getMcpCreationPrompt (hub\<lparr>getMode := m\<rparr>) = getMcpCreationPrompt hub"
  by (simp add: getMcpCreationPrompt_def)

lemma example_creation_off:
  "getMcpCreationPrompt (example_hub\<lparr>getMode := ''off''\<rparr>) =
     Inr (mcp_creation_text_1 @ ''/home/dev/Documents/Cline/MCP'' @
          mcp_creation_text_2 @ ''/home/dev/Documents/Cline/MCP'' @
          mcp_creation_text_3 @ ''/home/dev/.config/cline_mcp_settings.json'' @
          mcp_creation_text_4 @ ''/home/dev/Documents/Cline/MCP'' @
          mcp_creation_text_5 @ ''alpha'' @ mcp_creation_text_6)"
  by (simp only: getMcpCreationPrompt_mode example_creation)

lemma example_unreachable:
  "SYSTEM_PROMPT example_host example_providers cwd f
     (example_hub\<lparr>getMcpServersPath := Inl (Rejected ''registry unreachable'')\<rparr>)
     example_settings = Inl (Rejected ''registry unreachable'')"
  by (simp add: SYSTEM_PROMPT_def SYSTEM_PROMPT_sections_def example_capabilities
      getMcpCreationPrompt_def getMcpServersPrompt_def example_hub_def example_host_def alpha_def
      server_entry_def example_parse_def tool_line_def or_js_def)

subsection \<open>The order of the sections\<close>

text \<open>
  Claim C1. Whenever the assembly returns a document, the document is the section list
  joined with blank lines, and in that list the \<^verbatim>\<open>execute_command\<close> section stands at
  index 2. With computer use the list has 23 entries and the \<^verbatim>\<open>browser_action\<close> section
  is the entry right after it; without, the list has the 22 mandatory entries and the next
  mandatory section follows directly, with one separator between them: no entry, not even
  an empty one, stands for the browser section. The MCP servers section is the entry right
  after the editing section and three entries before the rules section, for either value
  of the flag and any hub.
\<close>

theorem SYSTEM_PROMPT_section_order:
  assumes "getCapabilitiesPrompt p cwd f hub = Inr cap"
    and "getMcpServersPrompt h hub = Inr srv"
    and "getMcpCreationPrompt hub = Inr cre"
  shows "\<exists>ss.
     SYSTEM_PROMPT_sections h p cwd f hub bs = Inr ss \<and>
     SYSTEM_PROMPT h p cwd f hub bs = Inr (join ''\<newline>\<newline>'' ss) \<and>
     length ss = (if f then 23 else 22) \<and>
     ss ! 2 = getExecuteCommandPrompt p cwd \<and>
     ss ! 3 = (if f then getBrowserActionPrompt bs else getListCodeDefinitionNamesPrompt p cwd) \<and>
     ss ! (if f then 4 else 3) = getListCodeDefinitionNamesPrompt p cwd \<and>
     join ''\<newline>\<newline>'' ss =
       join ''\<newline>\<newline>'' (take 2 ss) @ ''\<newline>\<newline>'' @
       getExecuteCommandPrompt p cwd @ ''\<newline>\<newline>'' @
       (if f then getBrowserActionPrompt bs @ ''\<newline>\<newline>'' else []) @
       getListCodeDefinitionNamesPrompt p cwd @ ''\<newline>\<newline>'' @
       join ''\<newline>\<newline>'' (drop (if f then 5 else 4) ss) \<and>
     ss ! (if f then 17 else 16) = getEditingPrompt p \<and>
     ss ! (if f then 18 else 17) = srv \<and>
     ss ! (if f then 21 else 20) = getRulesPrompt cwd f"
proof -
  note S = SYSTEM_PROMPT_sections_Inr [OF assms, of bs]
  show ?thesis
  proof (cases f)
    case True
    from S show ?thesis
      by (intro exI [of _ "projr (SYSTEM_PROMPT_sections h p cwd f hub bs)"])
         (simp add: SYSTEM_PROMPT_def True)
  next
    case False
    from S show ?thesis
      by (intro exI [of _ "projr (SYSTEM_PROMPT_sections h p cwd f hub bs)"])
         (simp add: SYSTEM_PROMPT_def False)
  qed
qed

theorem SYSTEM_PROMPT_section_order_witness:
  "\<exists>ss.
     SYSTEM_PROMPT_sections example_host example_providers ''/home/dev/project'' True
       example_hub example_settings = Inr ss \<and>
     length ss = 23 \<and>
     ss ! 2 = getExecuteCommandPrompt example_providers ''/home/dev/project'' \<and>
     ss ! 3 = getBrowserActionPrompt example_settings \<and>
     ss ! 17 = getEditingPrompt example_providers \<and>
     getMcpServersPrompt example_host example_hub = Inr (ss ! 18) \<and>
     ss ! 21 = getRulesPrompt ''/home/dev/project'' True"
  using SYSTEM_PROMPT_section_order [where h = example_host and p = example_providers
      and cwd = "''/home/dev/project''" and f = True and hub = example_hub
      and bs = example_settings, OF example_capabilities example_servers example_creation]
  by (auto simp: example_servers)

subsection \<open>What the computer-use flag changes\<close>

lemma rules_text_browser_tasks_nonempty: "rules_text_browser_tasks \<noteq> []"
  by (simp add: rules_text_browser_tasks_def)

lemma getRulesPrompt_flag: "getRulesPrompt cwd True \<noteq> getRulesPrompt cwd False"
proof -
  have "length (getRulesPrompt cwd True) =
      length (getRulesPrompt cwd False) + length rules_text_browser_tasks +
      length rules_text_browser_example"
    by (simp add: getRulesPrompt_def)
  moreover have "0 < length rules_text_browser_tasks"
    using rules_text_browser_tasks_nonempty by simp
  ultimately show ?thesis by auto
qed

text \<open>
  Claim C2 says that the documents with and without computer use differ in the
  \<^verbatim>\<open>browser_action\<close> section only. If so, the section list with the flag would be the list
  without it, with that one section spliced in at index 3. In the worked example it is
  not: the rules section gets the flag too and prints two more sentences with it.
\<close>

theorem flag_toggle_counterexample:
  "SYSTEM_PROMPT_sections example_host example_providers ''/home/dev/project'' True
       example_hub example_settings \<noteq>
   map_sum id (splice_js 3 0 [getBrowserActionPrompt example_settings])
     (SYSTEM_PROMPT_sections example_host example_providers ''/home/dev/project'' False
        example_hub example_settings)"
  using getRulesPrompt_flag [of "''/home/dev/project''"]
  by (simp add: SYSTEM_PROMPT_sections_Inr [OF example_capabilities example_servers example_creation]
      splice_js_def)

text \<open>
  Claim C2, amended. Turning the flag on adds the \<^verbatim>\<open>browser_action\<close> section at index 3
  and changes two of the other sections, the two that receive the flag: the rules section,
  which prints two more sentences, and the capabilities section, whose provider is a
  parameter here. The remaining 20 sections are the same: taking the browser section out
  of the list with the flag gives the list without it, up to the entries 15 (capabilities)
  and 20 (rules).
\<close>

theorem flag_toggle_sections:
  assumes "getCapabilitiesPrompt p cwd True hub = Inr capT"
    and "getCapabilitiesPrompt p cwd False hub = Inr capF"
    and "getMcpServersPrompt h hub = Inr srv"
    and "getMcpCreationPrompt hub = Inr cre"
  shows "\<exists>st sf.
     SYSTEM_PROMPT_sections h p cwd True hub bs = Inr st \<and>
     SYSTEM_PROMPT_sections h p cwd False hub bs = Inr sf \<and>
     length st = 23 \<and> length sf = 22 \<and>
     st ! 3 = getBrowserActionPrompt bs \<and>
     splice_js 3 1 [] st = sf[15 := capT, 20 := getRulesPrompt cwd True] \<and>
     sf ! 15 = capF \<and>
     sf ! 20 = getRulesPrompt cwd False \<and>
     getRulesPrompt cwd True \<noteq> getRulesPrompt cwd False \<and>
     (\<exists>a. getRulesPrompt cwd False = a @ rules_text_6 @ ''\<newline>'' \<and>
          getRulesPrompt cwd True =
            a @ rules_text_browser_tasks @ rules_text_6 @ rules_text_browser_example @ ''\<newline>'')"
proof -
  note T = SYSTEM_PROMPT_sections_Inr [OF assms(1) assms(3) assms(4), of bs]
  note F = SYSTEM_PROMPT_sections_Inr [OF assms(2) assms(3) assms(4), of bs]
  have R: "\<exists>a. getRulesPrompt cwd False = a @ rules_text_6 @ ''\<newline>'' \<and>
          getRulesPrompt cwd True =
            a @ rules_text_browser_tasks @ rules_text_6 @ rules_text_browser_example @ ''\<newline>''"
    by (rule exI [of _ "rules_text_1 @ toPosix cwd @ rules_text_2 @ toPosix cwd @ rules_text_3 @
          toPosix cwd @ rules_text_4 @ toPosix cwd @ rules_text_5"])
       (simp add: getRulesPrompt_def)
  from T F R show ?thesis
    by (intro exI [of _ "projr (SYSTEM_PROMPT_sections h p cwd True hub bs)"]
          exI [of _ "projr (SYSTEM_PROMPT_sections h p cwd False hub bs)"])
       (simp add: splice_js_def getRulesPrompt_flag)
qed

theorem flag_toggle_sections_witness:
  "\<exists>st sf.
     SYSTEM_PROMPT_sections example_host example_providers ''/home/dev/project'' True
       example_hub example_settings = Inr st \<and>
     SYSTEM_PROMPT_sections example_host example_providers ''/home/dev/project'' False
       example_hub example_settings = Inr sf \<and>
     length st = 23 \<and> length sf = 22 \<and>
     st ! 3 = getBrowserActionPrompt example_settings \<and>
     splice_js 3 1 [] st = sf[15 := ''CAPABILITIES'', 20 := getRulesPrompt ''/home/dev/project'' True] \<and>
     sf ! 20 = getRulesPrompt ''/home/dev/project'' False"
  using flag_toggle_sections [where h = example_host and p = example_providers
      and cwd = "''/home/dev/project''" and hub = example_hub and bs = example_settings,
      OF example_capabilities example_capabilities example_servers example_creation]
  by blast

subsection \<open>Empty sections\<close>

text \<open>
  Claim C3 says that an empty section text is skipped before the join. In the worked
  example with the hub in mode \<^verbatim>\<open>off\<close> the servers section is empty, and the document is
  not the join of the sections that are not empty.
\<close>

theorem empty_section_counterexample:
  "SYSTEM_PROMPT example_host example_providers ''/home/dev/project'' False
       (example_hub\<lparr>getMode := ''off''\<rparr>) example_settings \<noteq>
   bindE (SYSTEM_PROMPT_sections example_host example_providers ''/home/dev/project'' False
       (example_hub\<lparr>getMode := ''off''\<rparr>) example_settings)
     (\<lambda>sections. Inr (join ''\<newline>\<newline>'' (filter (\<lambda>s. s \<noteq> []) sections)))"
proof -
  let ?hub = "example_hub\<lparr>getMode := ''off''\<rparr>"
  note S = SYSTEM_PROMPT_sections_Inr [where h = example_host and p = example_providers
      and cwd = "''/home/dev/project''" and f = False and hub = ?hub and bs = example_settings,
      OF example_capabilities getMcpServersPrompt_off example_creation_off]
  show ?thesis
    unfolding SYSTEM_PROMPT_def S bindE_Inr sum.inject
    by (rule join_filter_neq [where x = "''BASE''", symmetric])
       (simp_all add: example_providers_def)
qed

text \<open>
  Claim C3, amended. With the hub in mode \<^verbatim>\<open>off\<close> the servers section is the empty string,
  and it is joined like every other entry: it keeps its place in the list, and in the
  document the separator before it and the separator after it stand next to each other,
  between the editing section and the system information section.
\<close>

theorem empty_section_is_joined:
  assumes "getMode hub = ''off''"
    and "getCapabilitiesPrompt p cwd f hub = Inr cap"
    and "getMcpCreationPrompt hub = Inr cre"
  shows "\<exists>ss.
     SYSTEM_PROMPT_sections h p cwd f hub bs = Inr ss \<and>
     length ss = (if f then 23 else 22) \<and>
     ss ! (if f then 18 else 17) = [] \<and>
     SYSTEM_PROMPT h p cwd f hub bs =
       Inr (join ''\<newline>\<newline>'' (take (if f then 17 else 16) ss) @ ''\<newline>\<newline>'' @
            getEditingPrompt p @ ''\<newline>\<newline>'' @ ''\<newline>\<newline>'' @
            getSystemInfoPrompt h cwd @ ''\<newline>\<newline>'' @
            join ''\<newline>\<newline>'' (drop (if f then 20 else 19) ss))"
proof -
  from assms(1) have "getMcpServersPrompt h hub = Inr []"
    by (simp add: getMcpServersPrompt_def)
  note S = SYSTEM_PROMPT_sections_Inr [OF assms(2) this assms(3), of bs]
  show ?thesis
  proof (cases f)
    case True
    from S show ?thesis
      by (intro exI [of _ "projr (SYSTEM_PROMPT_sections h p cwd f hub bs)"])
         (simp add: SYSTEM_PROMPT_def True)
  next
    case False
    from S show ?thesis
      by (intro exI [of _ "projr (SYSTEM_PROMPT_sections h p cwd f hub bs)"])
         (simp add: SYSTEM_PROMPT_def False)
  qed
qed

theorem empty_section_is_joined_witness:
  "\<exists>ss.
     SYSTEM_PROMPT_sections example_host example_providers ''/home/dev/project'' False
       (example_hub\<lparr>getMode := ''off''\<rparr>) example_settings = Inr ss \<and>
     length ss = 22 \<and>
     ss ! 17 = [] \<and>
     SYSTEM_PROMPT example_host example_providers ''/home/dev/project'' False
       (example_hub\<lparr>getMode := ''off''\<rparr>) example_settings =
       Inr (join ''\<newline>\<newline>'' (take 16 ss) @ ''\<newline>\<newline>'' @
            ''EDITING FILES'' @ ''\<newline>\<newline>'' @ ''\<newline>\<newline>'' @
            getSystemInfoPrompt example_host ''/home/dev/project'' @ ''\<newline>\<newline>'' @
            join ''\<newline>\<newline>'' (drop 19 ss))"
proof -
  have m: "getMode (example_hub\<lparr>getMode := ''off''\<rparr>) = ''off''"
    by simp
  have e: "getEditingPrompt example_providers = ''EDITING FILES''"
    by (simp add: example_providers_def)
  show ?thesis
    using empty_section_is_joined [where h = example_host and p = example_providers
      and cwd = "''/home/dev/project''" and f = False and bs = example_settings,
      OF m example_capabilities example_creation_off]
    unfolding e by simp
qed

subsection \<open>A hub that fails\<close>

text \<open>
  Claim C4 says that a failure of the hub is absorbed and a complete document with a
  placeholder is returned. In the worked example with a hub whose lookup of the servers
  path is rejected, the assembly returns that error and no document.
\<close>

theorem hub_failure_counterexample:
  "SYSTEM_PROMPT example_host example_providers ''/home/dev/project'' False
     (example_hub\<lparr>getMcpServersPath := Inl (Rejected ''registry unreachable'')\<rparr>)
     example_settings = Inl (Rejected ''registry unreachable'')"
  by (rule example_unreachable)

text \<open>
  Claim C4, amended. If the hub's listing or one of its two path lookups fails, the
  assembly fails: it returns an error and no document, since nothing in it catches one.
  The placeholders \<^verbatim>\<open>(No MCP servers currently connected)\<close> and
  \<^verbatim>\<open>(None running currently)\<close> are what the document holds when the hub answers, its mode
  is not \<^verbatim>\<open>off\<close> and it lists no connected server.
\<close>

theorem hub_failure_propagates:
  "(getServers hub = Inl e \<or> getMcpServersPath hub = Inl e \<or> getMcpSettingsFilePath hub = Inl e
      \<longrightarrow> isl (SYSTEM_PROMPT h p cwd f hub bs)) \<and>
   (getMode hub \<noteq> ''off'' \<and> getServers hub = Inr servers \<and>
    filter (\<lambda>server. server_status server = ''connected'') servers = [] \<and>
    getMcpServersPath hub = Inr sp \<and> getMcpSettingsFilePath hub = Inr sf \<and>
    getCapabilitiesPrompt p cwd f hub = Inr cap
      \<longrightarrow> (\<exists>d. SYSTEM_PROMPT h p cwd f hub bs = Inr d \<and>
             sublist ''(No MCP servers currently connected)'' d \<and>
             sublist ''(None running currently)'' d))"
proof (intro conjI impI, goal_cases)
  case 1
  then have "isl (getMcpCreationPrompt hub)"
    by (auto simp: getMcpCreationPrompt_isl)
  then show ?case
    by (simp add: SYSTEM_PROMPT_isl)
next
  case 2
  then have srv: "getMcpServersPrompt h hub =
      Inr (mcp_servers_text_1 @ ''(No MCP servers currently connected)'' @ mcp_servers_text_2)"
    and cre: "getMcpCreationPrompt hub =
      Inr (mcp_creation_text_1 @ sp @ mcp_creation_text_2 @ sp @ mcp_creation_text_3 @ sf @
          mcp_creation_text_4 @ sp @ mcp_creation_text_5 @ ''(None running currently)'' @
          mcp_creation_text_6)"
    and cap: "getCapabilitiesPrompt p cwd f hub = Inr cap"
    by (simp_all add: servers_placeholder creation_placeholder)
  from SYSTEM_PROMPT_sublist [OF cap srv cre, of bs]
  obtain d where d: "SYSTEM_PROMPT h p cwd f hub bs = Inr d"
    and s1: "sublist (mcp_servers_text_1 @ ''(No MCP servers currently connected)'' @ mcp_servers_text_2) d"
    and s2: "sublist (mcp_creation_text_1 @ sp @ mcp_creation_text_2 @ sp @ mcp_creation_text_3 @ sf @
          mcp_creation_text_4 @ sp @ mcp_creation_text_5 @ ''(None running currently)'' @
          mcp_creation_text_6) d"
    by blast
  have "sublist ''(No MCP servers currently connected)'' d"
    by (rule sublist_trans [OF _ s1]) (rule sublist_appendI)
  moreover have "sublist ''(None running currently)'' d"
    by (rule sublist_trans [OF _ s2])
       (rule sublist_appendI [of _ "mcp_creation_text_1 @ sp @ mcp_creation_text_2 @ sp @
          mcp_creation_text_3 @ sf @ mcp_creation_text_4 @ sp @ mcp_creation_text_5"
          mcp_creation_text_6, simplified])
  ultimately show ?case using d by blast
qed

theorem hub_failure_propagates_witness:
  "isl (SYSTEM_PROMPT example_host example_providers ''/home/dev/project'' False
         (example_hub\<lparr>getMcpServersPath := Inl (Rejected ''registry unreachable'')\<rparr>)
         example_settings) \<and>
   (\<exists>d. SYSTEM_PROMPT example_host example_providers ''/home/dev/project'' False
          (example_hub\<lparr>getServers := Inr []\<rparr>) example_settings = Inr d \<and>
        sublist ''(No MCP servers currently connected)'' d \<and>
        sublist ''(None running currently)'' d)"
proof
  show "isl (SYSTEM_PROMPT example_host example_providers ''/home/dev/project'' False
         (example_hub\<lparr>getMcpServersPath := Inl (Rejected ''registry unreachable'')\<rparr>)
         example_settings)"
    by (rule hub_failure_propagates [where e = "Rejected ''registry unreachable''",
          THEN conjunct1, THEN mp]) simp
  show "\<exists>d. SYSTEM_PROMPT example_host example_providers ''/home/dev/project'' False
          (example_hub\<lparr>getServers := Inr []\<rparr>) example_settings = Inr d \<and>
        sublist ''(No MCP servers currently connected)'' d \<and>
        sublist ''(None running currently)'' d"
    by (rule hub_failure_propagates [where servers = "[]"
          and sp = "''/home/dev/Documents/Cline/MCP''"
          and sf = "''/home/dev/.config/cline_mcp_settings.json''"
          and cap = "''CAPABILITIES''", THEN conjunct2, THEN mp])
       (simp add: example_hub_def example_capabilities)
qed

subsection \<open>Paths in the text\<close>

text \<open>
  The working directory and the home directory go through \<open>toPosix\<close> before they are
  printed, and its result has no backslash.
\<close>

lemma toPosix_no_backslash: "CHR 0x5C \<notin> set (toPosix p)"
  by (auto simp: toPosix_def)

text \<open>
  Claim C5 says that every path in the document is in forward-slash form, the paths the
  hub returns included. The creation section prints the two paths of the hub as they come:
  in the worked example with a Windows servers path, the document holds that path with its
  backslashes.
\<close>

theorem creation_path_keeps_backslashes:
  "\<exists>d. SYSTEM_PROMPT example_host example_providers ''/home/dev/project'' False
          (example_hub\<lparr>getMcpServersPath := Inr example_windows_path\<rparr>) example_settings = Inr d \<and>
        sublist example_windows_path d \<and>
        CHR 0x5C \<in> set d"
proof -
  let ?hub = "example_hub\<lparr>getMcpServersPath := Inr example_windows_path\<rparr>"
  let ?rest = "mcp_creation_text_2 @ example_windows_path @
          mcp_creation_text_3 @ ''/home/dev/.config/cline_mcp_settings.json'' @
          mcp_creation_text_4 @ example_windows_path @
          mcp_creation_text_5 @ ''alpha'' @ mcp_creation_text_6"
  have cre: "getMcpCreationPrompt ?hub = Inr (mcp_creation_text_1 @ example_windows_path @ ?rest)"
    by (simp add: getMcpCreationPrompt_def example_hub_def alpha_def or_js_def)
  have srv: "getMcpServersPrompt example_host ?hub = getMcpServersPrompt example_host example_hub"
    by (simp add: getMcpServersPrompt_def)
  from SYSTEM_PROMPT_sublist [where h = example_host and p = example_providers
      and cwd = "''/home/dev/project''" and f = False and hub = ?hub and bs = example_settings,
      OF example_capabilities srv [unfolded example_servers] cre]
  obtain d where d: "SYSTEM_PROMPT example_host example_providers ''/home/dev/project'' False
      ?hub example_settings = Inr d"
    and sub: "sublist (mcp_creation_text_1 @ example_windows_path @ ?rest) d"
    by blast
  have "sublist example_windows_path (mcp_creation_text_1 @ example_windows_path @ ?rest)"
    by (rule sublist_appendI)
  then have 1: "sublist example_windows_path d"
    using sub by (rule sublist_trans)
  then have "set example_windows_path \<subseteq> set d"
    by (rule set_mono_sublist)
  then have 2: "CHR 0x5C \<in> set d"
    by (auto simp: example_windows_path_def)
  from d 1 2 show ?thesis by blast
qed

subsection \<open>Servers that are not connected\<close>

text \<open>
  Claim C6. Both sections that list servers keep the entries with status \<^verbatim>\<open>connected\<close>
  and drop every other one before anything is rendered: for every listing, the servers
  section and the creation section are what they are for the listing's connected entries
  alone. An entry with another status (connecting, failed) leaves no trace in either, and
  its configuration is not parsed.
\<close>

theorem only_connected_servers_rendered:
  "getMcpServersPrompt h (hub\<lparr>getServers := Inr servers\<rparr>) =
     getMcpServersPrompt h
       (hub\<lparr>getServers := Inr (filter (\<lambda>server. server_status server = ''connected'') servers)\<rparr>) \<and>
   getMcpCreationPrompt (hub\<lparr>getServers := Inr servers\<rparr>) =
     getMcpCreationPrompt
       (hub\<lparr>getServers := Inr (filter (\<lambda>server. server_status server = ''connected'') servers)\<rparr>)"
  by (simp add: getMcpServersPrompt_def getMcpCreationPrompt_def)

subsection \<open>Determinism\<close>




subsection \<open>The example scenario of the specification\<close>

text \<open>
  Claim C8. Without computer use, with a hub whose mode is not \<^verbatim>\<open>off\<close> and whose listing is
  the one connected server \<^verbatim>\<open>alpha\<close> with the one tool \<^verbatim>\<open>fetch\<close>, described as
  \<^verbatim>\<open>retrieves a URL\<close>, and whose configuration parses and prints, the section list is the 22
  mandatory sections in their fixed order, with no \<^verbatim>\<open>browser_action\<close> section, and the
  document is these 22 texts, one after the other, with a blank line between every two
  neighbours. The servers section lists \<^verbatim>\<open>alpha\<close> and nothing else, with the one tool line
  \<^verbatim>\<open>- fetch: retrieves a URL\<close>.
\<close>

theorem example_scenario:
  assumes "getMode hub \<noteq> ''off''"
    and "getServers hub = Inr [server]"
    and "server_name server = ''alpha''"
    and "server_status server = ''connected''"
    and "server_tools server =
           Some [\<lparr>tool_name = ''fetch'', tool_description = ''retrieves a URL''\<rparr>]"
    and "JSON_parse h (server_config server) = Some config"
    and "getProp config ''command'' = Inr command"
    and "template_js command = Inr commandText"
    and "getProp config ''args'' = Inr args"
    and "joinArgs args = Inr joined"
    and "getMcpServersPath hub = Inr serversPath"
    and "getMcpSettingsFilePath hub = Inr settingsPath"
    and "getCapabilitiesPrompt p cwd False hub = Inr cap"
  shows "SYSTEM_PROMPT_sections h p cwd False hub bs =
     Inr [ getBasePrompt p,
           getToolUsePrompt p,
           getExecuteCommandPrompt p cwd,
           getListCodeDefinitionNamesPrompt p cwd,
           getListFilesPrompt p cwd,
           getReadFilePrompt p cwd,
           getReplaceInFilePrompt p cwd,
           getSearchFilesPrompt p cwd,
           getWriteToFilePrompt p cwd,
           getAskFollowupQuestionPrompt p,
           getAttemptCompletionPrompt p,
           getPlanModeResponsePrompt,
           getUseMcpToolPrompt p,
           getAccessMcpResourcePrompt p,
           getModesPrompt p,
           cap,
           getEditingPrompt p,
           mcp_servers_text_1 @
             ''## alpha (`'' @ commandText @ '' '' @ joined @ ''`)\<newline>'' @
             ''\<newline>'' @
             ''### Available Tools\<newline>'' @
             ''- fetch: retrieves a URL'' @
             mcp_servers_text_2,
           getSystemInfoPrompt h cwd,
           getObjectivePrompt p,
           getRulesPrompt cwd False,
           mcp_creation_text_1 @ serversPath @ mcp_creation_text_2 @ serversPath @
             mcp_creation_text_3 @ settingsPath @ mcp_creation_text_4 @ serversPath @
             mcp_creation_text_5 @ ''alpha'' @ mcp_creation_text_6 ] \<and>
   SYSTEM_PROMPT h p cwd False hub bs =
     Inr (getBasePrompt p @ ''\<newline>\<newline>'' @
          getToolUsePrompt p @ ''\<newline>\<newline>'' @
          getExecuteCommandPrompt p cwd @ ''\<newline>\<newline>'' @
          getListCodeDefinitionNamesPrompt p cwd @ ''\<newline>\<newline>'' @
          getListFilesPrompt p cwd @ ''\<newline>\<newline>'' @
          getReadFilePrompt p cwd @ ''\<newline>\<newline>'' @
          getReplaceInFilePrompt p cwd @ ''\<newline>\<newline>'' @
          getSearchFilesPrompt p cwd @ ''\<newline>\<newline>'' @
          getWriteToFilePrompt p cwd @ ''\<newline>\<newline>'' @
          getAskFollowupQuestionPrompt p @ ''\<newline>\<newline>'' @
          getAttemptCompletionPrompt p @ ''\<newline>\<newline>'' @
          getPlanModeResponsePrompt @ ''\<newline>\<newline>'' @
          getUseMcpToolPrompt p @ ''\<newline>\<newline>'' @
          getAccessMcpResourcePrompt p @ ''\<newline>\<newline>'' @
          getModesPrompt p @ ''\<newline>\<newline>'' @
          cap @ ''\<newline>\<newline>'' @
          getEditingPrompt p @ ''\<newline>\<newline>'' @
          (mcp_servers_text_1 @
             ''## alpha (`'' @ commandText @ '' '' @ joined @ ''`)\<newline>'' @
             ''\<newline>'' @
             ''### Available Tools\<newline>'' @
             ''- fetch: retrieves a URL'' @
             mcp_servers_text_2) @ ''\<newline>\<newline>'' @
          getSystemInfoPrompt h cwd @ ''\<newline>\<newline>'' @
          getObjectivePrompt p @ ''\<newline>\<newline>'' @
          getRulesPrompt cwd False @ ''\<newline>\<newline>'' @
          (mcp_creation_text_1 @ serversPath @ mcp_creation_text_2 @ serversPath @
             mcp_creation_text_3 @ settingsPath @ mcp_creation_text_4 @ serversPath @
             mcp_creation_text_5 @ ''alpha'' @ mcp_creation_text_6))"
proof -
  have entry: "server_entry h server =
      Inr (''## alpha (`'' @ commandText @ '' '' @ joined @
           ''`)\<newline>\<newline>### Available Tools\<newline>- fetch: retrieves a URL'')"
    using server_entry_Inr [OF assms(6-10)] assms(3,5)
    by (simp add: tool_line_def or_js_def)
  have srv: "getMcpServersPrompt h hub =
      Inr (mcp_servers_text_1 @
           ''## alpha (`'' @ commandText @ '' '' @ joined @
           ''`)\<newline>\<newline>### Available Tools\<newline>- fetch: retrieves a URL'' @
           mcp_servers_text_2)"
    using assms(1,2,4) entry by (simp add: getMcpServersPrompt_def or_js_def)
  have cre: "getMcpCreationPrompt hub =
      Inr (mcp_creation_text_1 @ serversPath @ mcp_creation_text_2 @ serversPath @
           mcp_creation_text_3 @ settingsPath @ mcp_creation_text_4 @ serversPath @
           mcp_creation_text_5 @ ''alpha'' @ mcp_creation_text_6)"
    using assms(2,3,4,11,12) by (simp add: getMcpCreationPrompt_def or_js_def)
  show ?thesis
    by (simp add: SYSTEM_PROMPT_Inr [OF assms(13) srv cre]
        SYSTEM_PROMPT_sections_Inr [OF assms(13) srv cre])
qed

theorem example_scenario_witness:
  "SYSTEM_PROMPT example_host example_providers ''/home/dev/project'' False example_hub
     example_settings =
     Inr (''BASE'' @ ''\<newline>\<newline>'' @
          ''TOOL USE'' @ ''\<newline>\<newline>'' @
          ''## execute_command in /home/dev/project'' @ ''\<newline>\<newline>'' @
          ''## list_code_definition_names in /home/dev/project'' @ ''\<newline>\<newline>'' @
          ''## list_files in /home/dev/project'' @ ''\<newline>\<newline>'' @
          ''## read_file in /home/dev/project'' @ ''\<newline>\<newline>'' @
          ''## replace_in_file in /home/dev/project'' @ ''\<newline>\<newline>'' @
          ''## search_files in /home/dev/project'' @ ''\<newline>\<newline>'' @
          ''## write_to_file in /home/dev/project'' @ ''\<newline>\<newline>'' @
          ''## ask_followup_question'' @ ''\<newline>\<newline>'' @
          ''## attempt_completion'' @ ''\<newline>\<newline>'' @
          getPlanModeResponsePrompt @ ''\<newline>\<newline>'' @
          ''## use_mcp_tool'' @ ''\<newline>\<newline>'' @
          ''## access_mcp_resource'' @ ''\<newline>\<newline>'' @
          ''MODES'' @ ''\<newline>\<newline>'' @
          ''CAPABILITIES'' @ ''\<newline>\<newline>'' @
          ''EDITING FILES'' @ ''\<newline>\<newline>'' @
          (mcp_servers_text_1 @
             ''## alpha (`node alpha.js`)\<newline>'' @
             ''\<newline>'' @
             ''### Available Tools\<newline>'' @
             ''- fetch: retrieves a URL'' @
             mcp_servers_text_2) @ ''\<newline>\<newline>'' @
          getSystemInfoPrompt example_host ''/home/dev/project'' @ ''\<newline>\<newline>'' @
          ''OBJECTIVE'' @ ''\<newline>\<newline>'' @
          getRulesPrompt ''/home/dev/project'' False @ ''\<newline>\<newline>'' @
          (mcp_creation_text_1 @ ''/home/dev/Documents/Cline/MCP'' @
             mcp_creation_text_2 @ ''/home/dev/Documents/Cline/MCP'' @
             mcp_creation_text_3 @ ''/home/dev/.config/cline_mcp_settings.json'' @
             mcp_creation_text_4 @ ''/home/dev/Documents/Cline/MCP'' @
             mcp_creation_text_5 @ ''alpha'' @ mcp_creation_text_6))"
proof -
  have "JSON_parse example_host (server_config alpha) =
      Some (JObject [(''command'', JString ''node''), (''args'', JArray [JString ''alpha.js''])])"
    by (simp add: example_host_def alpha_def example_parse_def)
  from example_scenario [where hub = example_hub and server = alpha and h = example_host
      and p = example_providers and cwd = "''/home/dev/project''" and bs = example_settings
      and command = "Some (JString ''node'')" and commandText = "''node''"
      and args = "Some (JArray [JString ''alpha.js''])" and joined = "''alpha.js''"
      and serversPath = "''/home/dev/Documents/Cline/MCP''"
      and settingsPath = "''/home/dev/.config/cline_mcp_settings.json''"
      and cap = "''CAPABILITIES''", OF _ _ _ _ _ this]
  have "SYSTEM_PROMPT example_host example_providers ''/home/dev/project'' False example_hub
     example_settings =
     Inr (getBasePrompt example_providers @ ''\<newline>\<newline>'' @
          getToolUsePrompt example_providers @ ''\<newline>\<newline>'' @
          getExecuteCommandPrompt example_providers ''/home/dev/project'' @ ''\<newline>\<newline>'' @
          getListCodeDefinitionNamesPrompt example_providers ''/home/dev/project'' @ ''\<newline>\<newline>'' @
          getListFilesPrompt example_providers ''/home/dev/project'' @ ''\<newline>\<newline>'' @
          getReadFilePrompt example_providers ''/home/dev/project'' @ ''\<newline>\<newline>'' @
          getReplaceInFilePrompt example_providers ''/home/dev/project'' @ ''\<newline>\<newline>'' @
          getSearchFilesPrompt example_providers ''/home/dev/project'' @ ''\<newline>\<newline>'' @
          getWriteToFilePrompt example_providers ''/home/dev/project'' @ ''\<newline>\<newline>'' @
          getAskFollowupQuestionPrompt example_providers @ ''\<newline>\<newline>'' @
          getAttemptCompletionPrompt example_providers @ ''\<newline>\<newline>'' @
          getPlanModeResponsePrompt @ ''\<newline>\<newline>'' @
          getUseMcpToolPrompt example_providers @ ''\<newline>\<newline>'' @
          getAccessMcpResourcePrompt example_providers @ ''\<newline>\<newline>'' @
          getModesPrompt example_providers @ ''\<newline>\<newline>'' @
          ''CAPABILITIES'' @ ''\<newline>\<newline>'' @
          getEditingPrompt example_providers @ ''\<newline>\<newline>'' @
          (mcp_servers_text_1 @
             ''## alpha (`'' @ ''node'' @ '' '' @ ''alpha.js'' @ ''`)\<newline>'' @
             ''\<newline>'' @
             ''### Available Tools\<newline>'' @
             ''- fetch: retrieves a URL'' @
             mcp_servers_text_2) @ ''\<newline>\<newline>'' @
          getSystemInfoPrompt example_host ''/home/dev/project'' @ ''\<newline>\<newline>'' @
          getObjectivePrompt example_providers @ ''\<newline>\<newline>'' @
          getRulesPrompt ''/home/dev/project'' False @ ''\<newline>\<newline>'' @
          (mcp_creation_text_1 @ ''/home/dev/Documents/Cline/MCP'' @
             mcp_creation_text_2 @ ''/home/dev/Documents/Cline/MCP'' @
             mcp_creation_text_3 @ ''/home/dev/.config/cline_mcp_settings.json'' @
             mcp_creation_text_4 @ ''/home/dev/Documents/Cline/MCP'' @
             mcp_creation_text_5 @ ''alpha'' @ mcp_creation_text_6))"
    by (simp add: example_hub_def alpha_def example_capabilities or_js_def)
  then show ?thesis
    by (simp add: example_providers_def)
qed

subsection \<open>Parameters are not validated\<close>

text \<open>
  Claim C9 says that a call without a working directory is rejected before any section is
  rendered. The signature takes the working directory as a string, and the only string
  that names no directory is the empty one. In the worked example with the empty string,
  the call is not rejected: it returns a document.
\<close>

theorem empty_cwd_counterexample:
  "\<not> isl (SYSTEM_PROMPT example_host example_providers [] False example_hub example_settings)"
  by (simp add: SYSTEM_PROMPT_isl example_capabilities example_servers example_creation)

text \<open>
  Claim C9, amended. The assembly checks none of its parameters. For every working
  directory, the empty string included, it fails exactly when the capabilities provider,
  the servers section or the creation section fails, and the error it returns is the one
  of the capabilities provider, of the servers section, or of the hub operation that
  failed in the creation section: no error of its own names a parameter.
\<close>

theorem no_parameter_validation:
  "(isl (SYSTEM_PROMPT h p cwd f hub bs) \<longleftrightarrow>
      isl (getCapabilitiesPrompt p cwd f hub) \<or> isl (getMcpServersPrompt h hub) \<or>
      isl (getMcpCreationPrompt hub)) \<and>
   (SYSTEM_PROMPT h p cwd f hub bs = Inl e \<longrightarrow>
      getCapabilitiesPrompt p cwd f hub = Inl e \<or> getMcpServersPrompt h hub = Inl e \<or>
      getMcpServersPath hub = Inl e \<or> getMcpSettingsFilePath hub = Inl e \<or>
      getServers hub = Inl e)"
  using SYSTEM_PROMPT_isl [of h p cwd f hub bs] SYSTEM_PROMPT_Inl [of h p cwd f hub bs e]
    getMcpCreationPrompt_Inl [of hub e]
  by blast

theorem no_parameter_validation_witness:
  "isl (SYSTEM_PROMPT example_host example_providers [] False
     (example_hub\<lparr>getMcpServersPath := Inl (Rejected ''registry unreachable'')\<rparr>)
     example_settings) \<and>
   isl (getMcpCreationPrompt
     (example_hub\<lparr>getMcpServersPath := Inl (Rejected ''registry unreachable'')\<rparr>)) \<and>
   getMcpServersPath (example_hub\<lparr>getMcpServersPath := Inl (Rejected ''registry unreachable'')\<rparr>) =
     Inl (Rejected ''registry unreachable'')"
  using no_parameter_validation [where h = example_host and p = example_providers and cwd = "[]"
      and f = False and bs = example_settings and e = "Rejected ''registry unreachable''"
      and hub = "example_hub\<lparr>getMcpServersPath := Inl (Rejected ''registry unreachable'')\<rparr>"]
    example_unreachable [of "[]" False]
  by (simp add: getMcpCreationPrompt_def)

subsection \<open>A configuration that does not parse\<close>

text \<open>
  Claim C10 says that the servers section, and with it the assembly, throws for every
  listing in which the configuration of a connected server does not parse. With the hub in
  mode \<^verbatim>\<open>off\<close> the section returns the empty string before it reads the listing: in the
  worked example with such a hub and a connected server whose configuration does not
  parse, the section is empty and the assembly returns a document.
\<close>

theorem invalid_config_mode_off_counterexample:
  "server_status (alpha\<lparr>server_config := ''not json''\<rparr>) = ''connected'' \<and>
   JSON_parse example_host (server_config (alpha\<lparr>server_config := ''not json''\<rparr>)) = None \<and>
   getMcpServersPrompt example_host
     (example_hub\<lparr>getMode := ''off'', getServers := Inr [alpha\<lparr>server_config := ''not json''\<rparr>]\<rparr>) =
     Inr [] \<and>
   \<not> isl (SYSTEM_PROMPT example_host example_providers ''/home/dev/project'' False
     (example_hub\<lparr>getMode := ''off'', getServers := Inr [alpha\<lparr>server_config := ''not json''\<rparr>]\<rparr>)
     example_settings)"
  by (simp add: SYSTEM_PROMPT_isl example_capabilities getMcpServersPrompt_def
      getMcpCreationPrompt_isl example_hub_def alpha_def example_host_def example_parse_def)

text \<open>
  Claim C10, amended. When the mode of the hub is not \<^verbatim>\<open>off\<close>: for every listing in which
  the configuration of some connected server does not parse as JSON, the servers section
  throws, and so does the whole assembly.
\<close>

theorem invalid_config_throws:
  assumes "getMode hub \<noteq> ''off''"
    and "getServers hub = Inr servers"
    and "server \<in> set servers"
    and "server_status server = ''connected''"
    and "JSON_parse h (server_config server) = None"
  shows "isl (getMcpServersPrompt h hub) \<and> isl (SYSTEM_PROMPT h p cwd f hub bs)"
proof -
  have "isl (server_entry h server)"
    using assms(5) by (simp add: server_entry_def)
  moreover have "server \<in> set (filter (\<lambda>server. server_status server = ''connected'') servers)"
    using assms(3,4) by simp
  ultimately have "isl (mapE (server_entry h)
      (filter (\<lambda>server. server_status server = ''connected'') servers))"
    by (rule mapE_isl [rotated])
  then have "isl (getMcpServersPrompt h hub)"
    using assms(1,2)
    by (cases "mapE (server_entry h)
      (filter (\<lambda>server. server_status server = ''connected'') servers)")
      (simp_all add: getMcpServersPrompt_def)
  then show ?thesis by (simp add: SYSTEM_PROMPT_isl)
qed

theorem invalid_config_throws_witness:
  "isl (getMcpServersPrompt example_host
         (example_hub\<lparr>getServers := Inr [alpha\<lparr>server_config := ''not json''\<rparr>]\<rparr>)) \<and>
   isl (SYSTEM_PROMPT example_host example_providers ''/home/dev/project'' False
         (example_hub\<lparr>getServers := Inr [alpha\<lparr>server_config := ''not json''\<rparr>]\<rparr>)
         example_settings)"
  by (rule invalid_config_throws [where servers = "[alpha\<lparr>server_config := ''not json''\<rparr>]"
        and server = "alpha\<lparr>server_config := ''not json''\<rparr>"])
     (simp_all add: example_hub_def alpha_def example_host_def example_parse_def)

end
